theory Spec2Isabelle
  imports Complex_Main
begin

section \<open>Python strings\<close>

text \<open>
  A Python \<open>str\<close> is a sequence of Unicode code points; \<open>len\<close> counts code points.
  The page text contains glyphs beyond Latin-1, so a string is modelled as the list of its
  code points (\<open>ord\<close> of each character).  \<open>ustr\<close> turns an ASCII literal into such a
  list.
\<close>

type_synonym ustr = "nat list"

definition ustr :: "string \<Rightarrow> ustr" where
  "ustr s = map of_char s"

abbreviation STAR :: nat where "STAR \<equiv> 11088"    \<comment> \<open>U+2B50, the star glyph\<close>
abbreviation KEY :: nat where "KEY \<equiv> 128273"     \<comment> \<open>U+1F511, the key glyph\<close>
abbreviation FUEL :: nat where "FUEL \<equiv> 9981"     \<comment> \<open>U+26FD, the fuel pump glyph\<close>
abbreviation NBSP :: nat where "NBSP \<equiv> 160"      \<comment> \<open>\<open>\xa0\<close>\<close>
abbreviation SPACE :: nat where "SPACE \<equiv> 32"
abbreviation DOT :: nat where "DOT \<equiv> 46"
abbreviation COMMA :: nat where "COMMA \<equiv> 44"
abbreviation SLASH :: nat where "SLASH \<equiv> 47"
abbreviation PLUS :: nat where "PLUS \<equiv> 43"
abbreviation MINUS :: nat where "MINUS \<equiv> 45"
abbreviation UNDERSCORE :: nat where "UNDERSCORE \<equiv> 95"
abbreviation LPAREN :: nat where "LPAREN \<equiv> 40"
abbreviation RPAREN :: nat where "RPAREN \<equiv> 41"
abbreviation LBRACKET :: nat where "LBRACKET \<equiv> 91"
abbreviation RBRACKET :: nat where "RBRACKET \<equiv> 93"
abbreviation EQUALS :: nat where "EQUALS \<equiv> 61"
abbreviation NEWLINE :: nat where "NEWLINE \<equiv> 10"

text \<open>
  \<open>\d\<close> in a \<open>str\<close> pattern, and the digits \<open>int()\<close> and \<open>float()\<close> accept, are the
  code points of Unicode category Nd.  They come in runs of ten, in the order of their
  values; \<open>nd_starts\<close> lists the zero of every run (Unicode 14, the table of CPython 3.11).
\<close>

definition nd_starts :: "nat list" where
  "nd_starts = [48, 1632, 1776, 1984, 2406, 2534, 2662, 2790, 2918, 3046, 3174, 3302, 3430,
     3558, 3664, 3792, 3872, 4160, 4240, 6112, 6160, 6470, 6608, 6784, 6800, 6992, 7088, 7232,
     7248, 42528, 43216, 43264, 43472, 43504, 43600, 44016, 65296, 66720, 68912, 69734, 69872,
     69942, 70096, 70384, 70736, 70864, 71248, 71360, 71472, 71904, 72016, 72784, 73040, 73120,
     92768, 92864, 93008, 120782, 120792, 120802, 120812, 120822, 123200, 123632, 125264,
     130032]"

definition is_digit :: "nat \<Rightarrow> bool" where
  "is_digit c = list_ex (\<lambda>s. s \<le> c \<and> c < s + 10) nd_starts"

definition digit_val :: "nat \<Rightarrow> nat" where
  "digit_val c = (case find (\<lambda>s. s \<le> c \<and> c < s + 10) nd_starts of
                    Some s \<Rightarrow> c - s | None \<Rightarrow> 0)"

text \<open>\<open>\s\<close> in a \<open>str\<close> pattern and the characters \<open>str.strip()\<close> removes.\<close>

definition is_space :: "nat \<Rightarrow> bool" where
  "is_space c = (c \<in> set [9, 10, 11, 12, 13, 28, 29, 30, 31, 32, 133, 160, 5760, 8192, 8193,
     8194, 8195, 8196, 8197, 8198, 8199, 8200, 8201, 8202, 8232, 8233, 8239, 8287, 12288])"

definition strip_with :: "(nat \<Rightarrow> bool) \<Rightarrow> ustr \<Rightarrow> ustr" where
  "strip_with p s = rev (dropWhile p (rev (dropWhile p s)))"

definition py_strip :: "ustr \<Rightarrow> ustr" where
  "py_strip s = strip_with is_space s"

text \<open>\<open>s.split(d)\<close> for a one-character separator: always at least one part.\<close>

fun split_on :: "nat \<Rightarrow> ustr \<Rightarrow> ustr list" where
  "split_on d [] = [[]]"
| "split_on d (c # cs) =
     (if c = d then [] # split_on d cs
      else (case split_on d cs of p # ps \<Rightarrow> (c # p) # ps | [] \<Rightarrow> [[c]]))"

text \<open>\<open>s.replace(c, "")\<close> for a one-character \<open>c\<close>.\<close>

definition remove_char :: "nat \<Rightarrow> ustr \<Rightarrow> ustr" where
  "remove_char d s = filter (\<lambda>c. c \<noteq> d) s"

definition starts_with :: "ustr \<Rightarrow> ustr \<Rightarrow> bool" where
  "starts_with p s = (take (length p) s = p)"

section \<open>Errors and numbers\<close>

text \<open>
  Every \<open>raise\<close> of the source is a \<open>ValueError\<close>; the constructors keep apart the
  places that raise it.  The three \<open>ValueError_*\<close> of \<open>parse_mei_page\<close> itself are the
  missing-section failures; \<open>ValueError_parse_number\<close> is the failure of
  \<open>parse_number\<close>; \<open>ValueError_int\<close> and \<open>ValueError_unpack\<close> are raised by the
  interpreter (\<open>int()\<close> of a malformed literal, a tuple assignment of the wrong length),
  \<open>OverflowError\<close> by \<open>float()\<close> of a too large integer and \<open>int()\<close> of an infinite
  float, and \<open>IndexError\<close> by a list index out of range.
\<close>

datatype error =
    ValueError_class_name
  | ValueError_star_line
  | ValueError_stat_block
  | ValueError_parse_number ustr
  | ValueError_int ustr
  | ValueError_unpack
  | OverflowError
  | IndexError

fun is_ValueError :: "error \<Rightarrow> bool" where
  "is_ValueError OverflowError = False"
| "is_ValueError IndexError = False"
| "is_ValueError _ = True"

text \<open>
  A float is kept as the rational it was converted from (a decimal literal or an
  integer): \<open>PyFloat q\<close> stands for the double nearest to \<open>q\<close>, which is infinite when
  \<open>q\<close> rounds beyond the range of doubles.  The program never does arithmetic on floats.
\<close>

datatype pynum = PyInt int | PyFloat rat

text \<open>The value of a string of decimal digits.\<close>

definition dec_value :: "ustr \<Rightarrow> nat" where
  "dec_value s = foldl (\<lambda>a c. 10 * a + digit_val c) 0 s"

text \<open>
  \<open>int(s)\<close> on a string, base 10: whitespace is stripped (the separators
  \<open>\x1c\<close> to \<open>\x1f\<close> are not whitespace for \<open>int\<close>), one sign may follow, then digits
  with single underscores between them.  (The length limit on integer literals that
  CPython 3.11 can be configured with is not modelled.)
\<close>

definition int_space :: "nat \<Rightarrow> bool" where
  "int_space c = (is_space c \<and> \<not> (28 \<le> c \<and> c \<le> 31))"

fun und_digits :: "ustr \<Rightarrow> bool" where
  "und_digits [] = False"
| "und_digits [c] = is_digit c"
| "und_digits (c # d # r) =
     (is_digit c \<and> (if d = UNDERSCORE then r \<noteq> [] \<and> und_digits r else und_digits (d # r)))"

definition py_int :: "ustr \<Rightarrow> error + int" where
  "py_int s =
     (let t = strip_with int_space s;
          neg = (t \<noteq> [] \<and> hd t = MINUS);
          b = (if t \<noteq> [] \<and> (hd t = MINUS \<or> hd t = PLUS) then tl t else t)
      in if und_digits b
         then Inr ((if neg then - 1 else 1) * int (dec_value (remove_char UNDERSCORE b)))
         else Inl (ValueError_int s))"

text \<open>
  \<open>float(s)\<close> on a string of the shape digits, dot, digits (the only strings the program
  passes to it): the decimal value; never an error.
\<close>

definition py_float :: "ustr \<Rightarrow> rat" where
  "py_float s =
     (let l = takeWhile (\<lambda>c. c \<noteq> DOT) s; r = tl (dropWhile (\<lambda>c. c \<noteq> DOT) s)
      in of_nat (dec_value (l @ r)) / 10 ^ length r)"

section \<open>parse_number\<close>

text \<open>\<open>re.fullmatch(r"\d+", s)\<close>\<close>

definition all_digits :: "ustr \<Rightarrow> bool" where
  "all_digits s = (s \<noteq> [] \<and> list_all is_digit s)"

text \<open>
  \<open>(\.\d{3})+\<close> against the whole of the rest, and
  \<open>re.fullmatch(r"\d{1,3}(\.\d{3})+", s)\<close>: the leading digits are the longest run of
  digits (a shorter one is followed by a digit, not by a dot).
\<close>

fun dot_groups :: "ustr \<Rightarrow> bool" where
  "dot_groups (d # a # b # c # rest) =
     (d = DOT \<and> is_digit a \<and> is_digit b \<and> is_digit c \<and> (rest = [] \<or> dot_groups rest))"
| "dot_groups _ = False"

definition thousand_dots :: "ustr \<Rightarrow> bool" where
  "thousand_dots s =
     (let h = takeWhile is_digit s
      in 1 \<le> length h \<and> length h \<le> 3 \<and> dot_groups (dropWhile is_digit s))"

text \<open>\<open>re.fullmatch(r"\d+,\d+", s)\<close> and \<open>re.fullmatch(r"\d+\.\d+", s)\<close>\<close>

definition digits_sep_digits :: "nat \<Rightarrow> ustr \<Rightarrow> bool" where
  "digits_sep_digits d s =
     (takeWhile is_digit s \<noteq> [] \<and>
      (case dropWhile is_digit s of
         [] \<Rightarrow> False
       | c # r \<Rightarrow> c = d \<and> all_digits r))"

text \<open>
  Rule 2 of \<open>parse_number\<close>, the strings with a comma and no dot.  \<open>None\<close>: the rule
  returns nothing and control falls through to rules 3 and 4.
\<close>

definition comma_rule :: "ustr \<Rightarrow> (error + pynum) option" where
  "comma_rule s =
     (if COMMA \<in> set s \<and> DOT \<notin> set s then
        (if digits_sep_digits COMMA s then
           (case split_on COMMA s of
              [left, right] \<Rightarrow>
                (if length right = 3 then Some (Inr (PyInt (int (dec_value (left @ right)))))
                 else Some (Inr (PyFloat (py_float (left @ [DOT] @ right)))))
            | _ \<Rightarrow> Some (Inl ValueError_unpack))
         else
           (let parts = split_on COMMA s
            in if list_all (\<lambda>p. length p \<le> 3) (tl parts)
               then Some (case py_int (concat parts) of Inl e \<Rightarrow> Inl e | Inr n \<Rightarrow> Inr (PyInt n))
               else None))
      else None)"

definition parse_number :: "ustr \<Rightarrow> error + pynum" where
  "parse_number s0 =
     (let s = py_strip s0
      in if thousand_dots s then Inr (PyInt (int (dec_value (remove_char DOT s))))
         else (case comma_rule s of
                 Some r \<Rightarrow> r
               | None \<Rightarrow>
                   if digits_sep_digits DOT s then Inr (PyFloat (py_float s))
                   else if all_digits s then Inr (PyInt (int (dec_value s)))
                   else Inl (ValueError_parse_number s)))"

section \<open>Float and integer conversions\<close>

text \<open>
  \<open>float(n)\<close> of an integer raises \<open>OverflowError\<close> when \<open>n\<close> rounds to \<open>2 ^ 1024\<close>
  or beyond; \<open>float(x)\<close> of a float is \<open>x\<close>.
\<close>

definition double_overflows :: "rat \<Rightarrow> bool" where
  "double_overflows q = (\<bar>q\<bar> \<ge> 2 ^ 1024 - 2 ^ 970)"

definition float_of_num :: "pynum \<Rightarrow> error + rat" where
  "float_of_num v =
     (case v of
        PyInt n \<Rightarrow> if double_overflows (of_int n) then Inl OverflowError else Inr (of_int n)
      | PyFloat q \<Rightarrow> Inr q)"

text \<open>
  \<open>int(x)\<close> of a float truncates the double \<open>x\<close> and raises \<open>OverflowError\<close> on an
  infinite one.  \<open>round_double\<close> is rounding to the nearest double, ties to even, of a
  rational within range: 53 significant bits, exponents from \<open>-1022\<close>.
\<close>

fun bit_length :: "nat \<Rightarrow> nat" where
  "bit_length n = (if n = 0 then 0 else Suc (bit_length (n div 2)))"

definition floor_log2 :: "rat \<Rightarrow> int" where
  "floor_log2 q =
     (if 1 \<le> q then int (bit_length (nat \<lfloor>q\<rfloor>)) - 1
      else - int (bit_length (nat (\<lceil>1 / q\<rceil> - 1))))"

definition round_half_even :: "rat \<Rightarrow> int" where
  "round_half_even q =
     (let f = \<lfloor>q\<rfloor>; d = q - of_int f
      in if d < 1 / 2 then f else if 1 / 2 < d then f + 1 else if even f then f else f + 1)"

definition round_double :: "rat \<Rightarrow> rat" where
  "round_double q =
     (if q = 0 then 0
      else (let a = \<bar>q\<bar>;
                u = 2 powi (max (floor_log2 a) (- 1022) - 52)
            in sgn q * of_int (round_half_even (a / u)) * u))"

definition int_of_num :: "pynum \<Rightarrow> error + int" where
  "int_of_num v =
     (case v of
        PyInt n \<Rightarrow> Inr n
      | PyFloat q \<Rightarrow>
          if double_overflows q then Inl OverflowError
          else (let d = round_double q in Inr (if 0 \<le> d then \<lfloor>d\<rfloor> else \<lceil>d\<rceil>)))"

section \<open>Normalizer\<close>

text \<open>\<open>text.splitlines()\<close>: the line boundaries of \<open>str.splitlines\<close>; \<open>\r\n\<close> is one.\<close>

definition is_linebreak :: "nat \<Rightarrow> bool" where
  "is_linebreak c = (c \<in> set [10, 11, 12, 13, 28, 29, 30, 133, 8232, 8233])"

fun splitlines_from :: "ustr \<Rightarrow> ustr \<Rightarrow> ustr list" where
  "splitlines_from cur [] = (if cur = [] then [] else [rev cur])"
| "splitlines_from cur (c # cs) =
     (if c = 13 \<and> cs \<noteq> [] \<and> hd cs = NEWLINE then splitlines_from cur cs
      else if is_linebreak c then rev cur # splitlines_from [] cs
      else splitlines_from (c # cur) cs)"

definition splitlines :: "ustr \<Rightarrow> ustr list" where
  "splitlines s = splitlines_from [] s"

text \<open>
  \<open>re.sub(r"\s+", " ", line)\<close>: every run of whitespace becomes one space (the space is
  written at the last character of the run).
\<close>

fun collapse_ws :: "ustr \<Rightarrow> ustr" where
  "collapse_ws [] = []"
| "collapse_ws (c # cs) =
     (if is_space c
      then (if cs \<noteq> [] \<and> is_space (hd cs) then collapse_ws cs else SPACE # collapse_ws cs)
      else c # collapse_ws cs)"

definition normalize_line :: "ustr \<Rightarrow> ustr" where
  "normalize_line line =
     py_strip (collapse_ws (map (\<lambda>c. if c = NBSP then SPACE else c) line))"

definition page_lines :: "ustr \<Rightarrow> ustr list" where
  "page_lines text = filter (\<lambda>l. l \<noteq> []) (map normalize_line (splitlines text))"

section \<open>The patterns\<close>

text \<open>
  Each \<open>re\<close> call of the source is a recogniser of its own.  \<open>re.search\<close> returns the
  match at the leftmost position where one exists: \<open>search_from\<close> tries a matcher at every
  suffix in turn.  Inside one position, a greedy \<open>+\<close> or \<open>*\<close> over a character class
  takes the longest run, and in every pattern of this program giving characters back cannot
  help (the character after a shortened run is in the class, and what follows in the
  pattern never is), so a run is \<open>takeWhile\<close>.
\<close>

fun search_from :: "(ustr \<Rightarrow> 'a option) \<Rightarrow> ustr \<Rightarrow> 'a option" where
  "search_from m [] = m []"
| "search_from m (c # cs) =
     (case m (c # cs) of Some r \<Rightarrow> Some r | None \<Rightarrow> search_from m cs)"

fun first_index :: "('a \<Rightarrow> bool) \<Rightarrow> 'a list \<Rightarrow> nat option" where
  "first_index p [] = None"
| "first_index p (x # xs) =
     (if p x then Some 0 else map_option Suc (first_index p xs))"

text \<open>\<open>re.fullmatch(r"[DCBAS]", l)\<close>\<close>

definition is_class_line :: "ustr \<Rightarrow> bool" where
  "is_class_line l = (case l of [c] \<Rightarrow> c \<in> set (ustr ''DCBAS'') | _ \<Rightarrow> False)"

text \<open>\<open>set(l) == {"\<star>"}\<close> and \<open>re.fullmatch(r"\\<star>+", l)\<close>, with the star glyph for \<open>\<star>\<close>\<close>

definition all_stars :: "ustr \<Rightarrow> bool" where
  "all_stars l = (l \<noteq> [] \<and> list_all (\<lambda>c. c = STAR) l)"

text \<open>\<open>re.search(r"F\s+(\d+)\s+fuels", line)\<close>, \<open>F\<close> the fuel glyph: group 1.\<close>

definition fuel_at :: "ustr \<Rightarrow> ustr option" where
  "fuel_at s =
     (case s of
        [] \<Rightarrow> None
      | c # r \<Rightarrow>
          (let r1 = dropWhile is_space r; g = takeWhile is_digit r1;
               r2 = dropWhile is_digit r1; r3 = dropWhile is_space r2
           in if c = FUEL \<and> takeWhile is_space r \<noteq> [] \<and> g \<noteq> [] \<and> takeWhile is_space r2 \<noteq> []
                 \<and> starts_with (ustr ''fuels'') r3
              then Some g else None))"

text \<open>\<open>re.search(r"\d+/\d+/", s)\<close>\<close>

definition slash_slash_at :: "ustr \<Rightarrow> unit option" where
  "slash_slash_at s =
     (let r1 = dropWhile is_digit s; r2 = dropWhile is_digit (tl r1)
      in if takeWhile is_digit s \<noteq> [] \<and> r1 \<noteq> [] \<and> hd r1 = SLASH
            \<and> takeWhile is_digit (tl r1) \<noteq> [] \<and> r2 \<noteq> [] \<and> hd r2 = SLASH
         then Some () else None)"

text \<open>\<open>re.fullmatch(r"\d+(?:/\d+)+", s)\<close>\<close>

definition full_slash_seq :: "ustr \<Rightarrow> bool" where
  "full_slash_seq s = (let parts = split_on SLASH s in 2 \<le> length parts \<and> list_all all_digits parts)"

text \<open>
  \<open>re.search(r"(\d+(?:/\d+)+)", s)\<close>: \<open>slash_groups\<close> is the greedy \<open>(?:/\d+)*\<close> at
  the front of a string, as the list of its digit groups; \<open>slash_seq_at\<close> gives the digit
  groups of the match at a position, that is \<open>m.group(1).split("/")\<close>.
\<close>

function slash_groups :: "ustr \<Rightarrow> ustr list" where
  "slash_groups [] = []"
| "slash_groups (c # r) =
     (if c = SLASH \<and> takeWhile is_digit r \<noteq> []
      then takeWhile is_digit r # slash_groups (dropWhile is_digit r)
      else [])"
  by pat_completeness auto
termination
  by (relation "measure length") (auto simp: less_Suc_eq_le length_dropWhile_le)

definition slash_seq_at :: "ustr \<Rightarrow> ustr list option" where
  "slash_seq_at s =
     (let d = takeWhile is_digit s; gs = slash_groups (dropWhile is_digit s)
      in if d \<noteq> [] \<and> gs \<noteq> [] then Some (d # gs) else None)"

text \<open>
  \<open>re.search(r"\((?:[^\d]*)(\d+)[^\d]*\)", s)\<close>: after the parenthesis, everything up to
  the first digit, the run of digits (group 1), and a closing parenthesis before the next
  digit.
\<close>

definition paren_at :: "ustr \<Rightarrow> ustr option" where
  "paren_at s =
     (case s of
        [] \<Rightarrow> None
      | c # r \<Rightarrow>
          (let r1 = dropWhile (\<lambda>c. \<not> is_digit c) r; g = takeWhile is_digit r1;
               n = takeWhile (\<lambda>c. \<not> is_digit c) (dropWhile is_digit r1)
           in if c = LPAREN \<and> g \<noteq> [] \<and> RPAREN \<in> set n then Some g else None))"

text \<open>
  \<open>re.match(r"^(Stock|Gold|Max w/o epics|\\<star>+)\s*\[(\d+)\]$", s)\<close>: the label and the
  rank digits.  \<open>$\<close> also matches before a newline that ends the string.
\<close>

definition header_label :: "ustr \<Rightarrow> ustr option" where
  "header_label s =
     (if starts_with (ustr ''Stock'') s then Some (ustr ''Stock'')
      else if starts_with (ustr ''Gold'') s then Some (ustr ''Gold'')
      else if starts_with (ustr ''Max w/o epics'') s then Some (ustr ''Max w/o epics'')
      else if takeWhile (\<lambda>c. c = STAR) s \<noteq> [] then Some (takeWhile (\<lambda>c. c = STAR) s)
      else None)"

definition match_header :: "ustr \<Rightarrow> (ustr \<times> ustr) option" where
  "match_header s =
     (case header_label s of
        None \<Rightarrow> None
      | Some lab \<Rightarrow>
          (let r = dropWhile is_space (drop (length lab) s);
               g = takeWhile is_digit (tl r); e = dropWhile is_digit (tl r)
           in if r \<noteq> [] \<and> hd r = LBRACKET \<and> g \<noteq> [] \<and> (e = [RBRACKET] \<or> e = [RBRACKET, NEWLINE])
              then Some (lab, g) else None))"

definition is_header :: "ustr \<Rightarrow> bool" where
  "is_header s = (match_header s \<noteq> None)"

text \<open>
  \<open>re.search(r"([\d\.,]+)\s*km/h", s)\<close> and \<open>re.search(r"([\d\.,]+)", s)\<close>: group 1.
\<close>

definition is_numch :: "nat \<Rightarrow> bool" where
  "is_numch c = (is_digit c \<or> c = DOT \<or> c = COMMA)"

definition speed_at :: "ustr \<Rightarrow> ustr option" where
  "speed_at s =
     (let g = takeWhile is_numch s
      in if g \<noteq> [] \<and> starts_with (ustr ''km/h'') (dropWhile is_space (dropWhile is_numch s))
         then Some g else None)"

definition run_at :: "(nat \<Rightarrow> bool) \<Rightarrow> ustr \<Rightarrow> ustr option" where
  "run_at p s = (if takeWhile p s \<noteq> [] then Some (takeWhile p s) else None)"

text \<open>
  \<open>re.search(r"=\s*([\d,]+)", s)\<close> and \<open>re.search(r"Total:\s*([\d,]+)", s)\<close>: a literal
  prefix, whitespace, and group 1.
\<close>

definition is_numcomma :: "nat \<Rightarrow> bool" where
  "is_numcomma c = (is_digit c \<or> c = COMMA)"

definition prefixed_run_at :: "ustr \<Rightarrow> ustr \<Rightarrow> ustr option" where
  "prefixed_run_at p s =
     (if starts_with p s then run_at is_numcomma (dropWhile is_space (drop (length p) s))
      else None)"

section \<open>Unlock cost\<close>

definition extract_bp_from_two_lines :: "ustr \<Rightarrow> ustr option \<Rightarrow> (int list \<times> int option) option" where
  "extract_bp_from_two_lines line1 line2 =
     (let l1_clean = remove_char PLUS (remove_char KEY line1);
          reqs = map_option (map (\<lambda>x. int (dec_value x))) (search_from slash_seq_at l1_clean);
          m2 = (case search_from paren_at line1 of
                  Some g \<Rightarrow> Some g
                | None \<Rightarrow> search_from paren_at (case line2 of Some l \<Rightarrow> l | None \<Rightarrow> []));
          bp_total = map_option (\<lambda>g. int (dec_value g)) m2
      in case reqs of Some r \<Rightarrow> Some (r, bp_total) | None \<Rightarrow> None)"

text \<open>\<open>itertools.accumulate\<close>: the running sums.\<close>

fun accumulate_from :: "int \<Rightarrow> int list \<Rightarrow> int list" where
  "accumulate_from a [] = []"
| "accumulate_from a (x # xs) = (a + x) # accumulate_from (a + x) xs"

definition accumulate :: "int list \<Rightarrow> int list" where
  "accumulate xs = accumulate_from 0 xs"

text \<open>
  The loop over the lines that looks for the unlock block: the requirements, the total
  and \<open>uses_key\<close> of the first candidate line that \<open>extract_bp_from_two_lines\<close> accepts;
  \<open>None\<close> when the loop ends without \<open>break\<close>.
\<close>

definition is_bp_candidate :: "ustr \<Rightarrow> bool" where
  "is_bp_candidate l =
     (let cand_clean = remove_char KEY l
      in search_from slash_slash_at cand_clean \<noteq> None \<or> full_slash_seq cand_clean)"

fun bp_scan :: "ustr list \<Rightarrow> (int list \<times> int option \<times> bool) option" where
  "bp_scan [] = None"
| "bp_scan (l # ls) =
     (let next_line = (case ls of [] \<Rightarrow> None | n # _ \<Rightarrow> Some n)
      in if is_bp_candidate l then
           (case extract_bp_from_two_lines l next_line of
              Some (reqs, bp_total) \<Rightarrow>
                Some (reqs, bp_total,
                      KEY \<in> set l \<or> KEY \<in> set (case next_line of Some n \<Rightarrow> n | None \<Rightarrow> []))
            | None \<Rightarrow> bp_scan ls)
         else bp_scan ls)"

section \<open>Premium parts\<close>

text \<open>
  \<open>epic_per_stat\<close> and \<open>epic_price_total\<close>.  A \<open>ValueError\<close> of \<open>parse_number\<close> is
  caught and the price stays \<open>0\<close>.
\<close>

definition epics_scan :: "ustr list \<Rightarrow> error + (int \<times> pynum)" where
  "epics_scan lines =
     (case first_index (starts_with (ustr ''Epics:'')) lines of
        None \<Rightarrow> Inr (0, PyInt 0)
      | Some i \<Rightarrow>
          (let epic_per_stat =
                 (if i + 1 < length lines
                  then (case search_from (run_at is_digit) (lines ! (i + 1)) of
                          Some g \<Rightarrow> int (dec_value g) | None \<Rightarrow> 0)
                  else 0)
           in if i + 2 < length lines
              then (case parse_number (lines ! (i + 2)) of
                      Inr v \<Rightarrow> Inr (epic_per_stat, v)
                    | Inl e \<Rightarrow> if is_ValueError e then Inr (epic_per_stat, PyInt 0) else Inl e)
              else Inr (epic_per_stat, PyInt 0)))"

section \<open>Stat blocks\<close>

datatype stat_kind = K_stock | K_star | K_max_wo_epics | K_gold

record StatEntry =
  kind :: stat_kind
  label :: ustr
  rank :: int
  top_speed :: rat
  accel :: rat
  handling :: rat
  nitro :: rat

definition kind_of_label :: "ustr \<Rightarrow> stat_kind" where
  "kind_of_label lab =
     (if lab = ustr ''Stock'' then K_stock
      else if lab = ustr ''Gold'' then K_gold
      else if lab = ustr ''Max w/o epics'' then K_max_wo_epics
      else K_star)"

text \<open>
  The token of a metric line: the number before \<open>km/h\<close> when there is one, else the first
  run of digits, dots and commas.
\<close>

definition metric_token :: "ustr \<Rightarrow> ustr option" where
  "metric_token line =
     (case search_from speed_at line of
        Some g \<Rightarrow> Some g
      | None \<Rightarrow> search_from (run_at is_numch) line)"

text \<open>
  The \<open>while\<close> loop of \<open>parse_stat_block\<close>, over the lines from index \<open>i\<close> on: the
  metrics read and the index where the loop stopped.
\<close>

fun collect_stats :: "ustr list \<Rightarrow> nat \<Rightarrow> pynum list \<Rightarrow> error + (pynum list \<times> nat)" where
  "collect_stats [] i stats = Inr (stats, i)"
| "collect_stats (line # ls) i stats =
     (if length stats < 4 then
        (if is_header line then Inr (stats, i)
         else (case metric_token line of
                 None \<Rightarrow> collect_stats ls (i + 1) stats
               | Some t \<Rightarrow>
                   (case parse_number t of
                      Inl e \<Rightarrow> Inl e
                    | Inr v \<Rightarrow> collect_stats ls (i + 1) (stats @ [v]))))
      else Inr (stats, i))"

fun floats_of :: "pynum list \<Rightarrow> error + rat list" where
  "floats_of [] = Inr []"
| "floats_of (v # vs) =
     (case float_of_num v of
        Inl e \<Rightarrow> Inl e
      | Inr x \<Rightarrow> (case floats_of vs of Inl e \<Rightarrow> Inl e | Inr xs \<Rightarrow> Inr (x # xs)))"

definition parse_stat_block :: "ustr list \<Rightarrow> nat \<Rightarrow> error + (StatEntry option \<times> nat)" where
  "parse_stat_block lines start_idx =
     (if length lines \<le> start_idx then Inl IndexError
      else (case match_header (lines ! start_idx) of
              None \<Rightarrow> Inr (None, start_idx)
            | Some (lab, rank_str) \<Rightarrow>
                (case collect_stats (drop (start_idx + 1) lines) (start_idx + 1) [] of
                   Inl e \<Rightarrow> Inl e
                 | Inr (stats, i) \<Rightarrow>
                     if length stats \<noteq> 4 then Inr (None, i)
                     else (case floats_of stats of
                             Inl e \<Rightarrow> Inl e
                           | Inr fs \<Rightarrow>
                               Inr (Some \<lparr>kind = kind_of_label lab, label = lab,
                                          rank = int (dec_value rank_str),
                                          top_speed = fs ! 0, accel = fs ! 1,
                                          handling = fs ! 2, nitro = fs ! 3\<rparr>, i)))))"

text \<open>
  The scan of \<open>parse_mei_page\<close> for stat blocks, from line \<open>i\<close>, with the entries
  captured so far.  After a captured block it goes on at the index the block parser
  returned, after a discarded one at the line after the header.
\<close>

function scan_stats :: "ustr list \<Rightarrow> nat \<Rightarrow> StatEntry list \<Rightarrow> error + StatEntry list" where
  "scan_stats lines i acc =
     (if i < length lines then
        (if is_header (lines ! i) then
           (case parse_stat_block lines i of
              Inl e \<Rightarrow> Inl e
            | Inr (Some entry, next_i) \<Rightarrow> scan_stats lines next_i (acc @ [entry])
            | Inr (None, next_i) \<Rightarrow> scan_stats lines (i + 1) acc)
         else scan_stats lines (i + 1) acc)
      else Inr acc)"
  by pat_completeness auto
termination
proof (relation "measure (\<lambda>(lines, i, acc). length lines - i)")
  show "wf (measure (\<lambda>(lines :: ustr list, i :: nat, acc :: StatEntry list). length lines - i))"
    by simp
next
  fix lines :: "ustr list" and i :: nat and acc :: "StatEntry list"
    and x2 :: "StatEntry option \<times> nat" and x1 :: "StatEntry option" and next_i :: nat
    and entry :: StatEntry
  assume lt: "i < length lines"
    and blk: "parse_stat_block lines i = Inr x2" "(x1, next_i) = x2" "x1 = Some entry"
  have mono: "collect_stats ls k st = Inr (st', k') \<Longrightarrow> k \<le> k'" for ls k st st' k'
  proof (induction ls k st rule: collect_stats.induct)
    case (1 i stats)
    then show ?case by simp
  next
    case (2 line ls i stats)
    show ?case
    proof (cases "length stats < 4 \<and> \<not> is_header line")
      case False
      with "2.prems" show ?thesis by (auto split: if_splits)
    next
      case True
      show ?thesis
      proof (cases "metric_token line")
        case None
        with True "2.prems" have "collect_stats ls (i + 1) stats = Inr (st', k')" by simp
        with "2.IH"(1) True None have "i + 1 \<le> k'" by simp
        then show ?thesis by simp
      next
        case (Some t)
        with True "2.prems" obtain v where v: "parse_number t = Inr v"
          and r: "collect_stats ls (i + 1) (stats @ [v]) = Inr (st', k')"
          by (auto split: sum.splits)
        with "2.IH"(2) True Some have "i + 1 \<le> k'" by simp
        then show ?thesis by simp
      qed
    qed
  qed
  from blk have "i < next_i"
    by (auto simp: parse_stat_block_def split: if_splits option.splits sum.splits prod.splits
             dest: mono)
  with lt show "((lines, next_i, acc @ [entry]), (lines, i, acc))
                  \<in> measure (\<lambda>(lines, i, acc). length lines - i)"
    by simp
qed auto

section \<open>Stat aggregation\<close>

datatype stat_type = T_stock | T_full | T_max_wo_epics | T_gold

record stat_row =
  star :: nat
  stat_type :: stat_type
  row_rank :: int
  row_top_speed :: rat
  row_accel :: rat
  row_handling :: rat
  row_nitro :: rat

definition mk_row :: "nat \<Rightarrow> stat_type \<Rightarrow> StatEntry \<Rightarrow> stat_row" where
  "mk_row s t e =
     \<lparr>star = s, stat_type = t, row_rank = rank e, row_top_speed = top_speed e,
      row_accel = accel e, row_handling = handling e, row_nitro = nitro e\<rparr>"

text \<open>The loop that fills the dictionary \<open>best_by_star\<close>.\<close>

fun best_by_star :: "StatEntry list \<Rightarrow> (nat \<rightharpoonup> StatEntry) \<Rightarrow> (nat \<rightharpoonup> StatEntry)" where
  "best_by_star [] m = m"
| "best_by_star (e # es) m =
     (let sc = length (label e)
      in case m sc of
           None \<Rightarrow> best_by_star es (m(sc \<mapsto> e))
         | Some cur \<Rightarrow>
             if rank cur < rank e then best_by_star es (m(sc \<mapsto> e)) else best_by_star es m)"

definition build_stat_list :: "StatEntry list \<Rightarrow> nat \<Rightarrow> bool \<Rightarrow> stat_row list" where
  "build_stat_list stat_entries max_star has_epic =
     (let stock_entry = find (\<lambda>e. kind e = K_stock) stat_entries;
          gold_entry = find (\<lambda>e. kind e = K_gold) stat_entries;
          max_wo_entry = find (\<lambda>e. kind e = K_max_wo_epics) stat_entries;
          star_entries = filter (\<lambda>e. kind e = K_star) stat_entries;
          best = best_by_star star_entries Map.empty
      in (case stock_entry of Some e \<Rightarrow> [mk_row 1 T_stock e] | None \<Rightarrow> [])
         @ concat (map (\<lambda>s. case best s of None \<Rightarrow> [] | Some e \<Rightarrow> [mk_row s T_full e])
                       [1..<max_star])
         @ (if has_epic
            then (case max_wo_entry of Some e \<Rightarrow> [mk_row max_star T_max_wo_epics e] | None \<Rightarrow> [])
            else [])
         @ (case gold_entry of Some e \<Rightarrow> [mk_row max_star T_gold e] | None \<Rightarrow> []))"

section \<open>Upgrade costs\<close>

text \<open>
  The loop over the lines that collects \<open>star_full_totals\<close>, with the flag \<open>in_block\<close>.
\<close>

fun cost_ladder :: "ustr list \<Rightarrow> bool \<Rightarrow> int list \<Rightarrow> error + int list" where
  "cost_ladder [] in_block totals = Inr totals"
| "cost_ladder (l # ls) in_block totals =
     (if all_stars l then cost_ladder ls True totals
      else if in_block then
        (if starts_with [EQUALS] l then
           (case search_from (prefixed_run_at [EQUALS]) l of
              Some g \<Rightarrow>
                (case parse_number g of
                   Inl e \<Rightarrow> Inl e
                 | Inr total_full \<Rightarrow>
                     (case int_of_num total_full of
                        Inl e \<Rightarrow> Inl e
                      | Inr n \<Rightarrow> cost_ladder ls False (totals @ [n])))
            | None \<Rightarrow> cost_ladder ls False totals)
         else cost_ladder ls True totals)
      else cost_ladder ls False totals)"

text \<open>\<open>upgrade_all_full\<close>: the number on the first line that starts with \<open>Total:\<close>.\<close>

definition total_scan :: "ustr list \<Rightarrow> error + pynum option" where
  "total_scan lines =
     (case find (starts_with (ustr ''Total:'')) lines of
        None \<Rightarrow> Inr None
      | Some total_line \<Rightarrow>
          (case search_from (prefixed_run_at (ustr ''Total:'')) total_line of
             None \<Rightarrow> Inr None
           | Some g \<Rightarrow>
               (case parse_number g of Inl e \<Rightarrow> Inl e | Inr v \<Rightarrow> Inr (Some v))))"

definition per_star_of :: "int list \<Rightarrow> int list" where
  "per_star_of cumulative =
     map (\<lambda>idx. if idx = 0 then cumulative ! idx
                else cumulative ! idx - cumulative ! (idx - 1))
         [0..<length cumulative]"

section \<open>parse_mei_page\<close>

datatype unlock = Unlock_bp | Unlock_key

record epic_amounts =
  ea_top_speed :: int
  ea_accel :: int
  ea_handling :: int
  ea_nitro :: int

text \<open>
  The dictionary \<open>car\<close>.  An optional value is \<open>None\<close> where the dictionary holds
  \<open>None\<close>, and for \<open>upgrade_all\<close> where the key is absent.
\<close>

record car =
  car_id :: int
  unlock_method :: "unlock option"
  car_class :: ustr
  name :: ustr
  max_star :: nat
  fuel :: "int option"
  bp_requirements :: "int list"
  bp_cumulative :: "int list"
  bp_all :: "int option"
  epic_importparts_amount :: epic_amounts
  epic_price :: pynum
  stat :: "stat_row list"
  upgrade_cumulative :: "int list"
  upgrade_per_star :: "int list"
  upgrade_all :: "int option"

definition fuel_of :: "ustr list \<Rightarrow> int option" where
  "fuel_of lines =
     (case find (starts_with [FUEL]) lines of
        None \<Rightarrow> None
      | Some fuel_line \<Rightarrow> map_option (\<lambda>g. int (dec_value g)) (search_from fuel_at fuel_line))"

text \<open>
  The unlock fields: requirements, total and method when the scan found a block with
  requirements (\<open>if bp_reqs:\<close>), else the empty defaults.
\<close>

definition unlock_fields ::
  "(int list \<times> int option \<times> bool) option \<Rightarrow> int list \<times> int option \<times> unlock option" where
  "unlock_fields found =
     (case found of
        Some (bp_reqs, bp_total, uses_key) \<Rightarrow>
          if bp_reqs \<noteq> []
          then (bp_reqs, bp_total, Some (if uses_key then Unlock_key else Unlock_bp))
          else ([], None, None)
      | None \<Rightarrow> ([], None, None))"

text \<open>\<open>int(upgrade_all_full)\<close> when there is a total; the key stays absent otherwise.\<close>

definition upgrade_all_of :: "pynum option \<Rightarrow> error + int option" where
  "upgrade_all_of upgrade_all_full =
     (case upgrade_all_full of
        None \<Rightarrow> Inr None
      | Some v \<Rightarrow> (case int_of_num v of Inl e \<Rightarrow> Inl e | Inr n \<Rightarrow> Inr (Some n)))"

text \<open>
  The record that \<open>parse_mei_page\<close> returns, from the values of its local variables.
  Fuel and the unlock block cannot raise and are computed here.
\<close>

definition mk_car ::
  "ustr list \<Rightarrow> int \<Rightarrow> nat \<Rightarrow> ustr \<Rightarrow> int \<Rightarrow> pynum \<Rightarrow> StatEntry list \<Rightarrow> int list \<Rightarrow> int option \<Rightarrow> car"
  where
  "mk_car lines cid idx_class star_line epic_per_stat epic_price_total stat_entries
          star_full_totals upg_all =
     \<lparr>car_id = cid,
      unlock_method = snd (snd (unlock_fields (bp_scan lines))),
      car_class = lines ! idx_class,
      name = py_strip (lines ! (idx_class + 1)),
      max_star = length star_line,
      fuel = fuel_of lines,
      bp_requirements = fst (unlock_fields (bp_scan lines)),
      bp_cumulative = accumulate (fst (unlock_fields (bp_scan lines))),
      bp_all = fst (snd (unlock_fields (bp_scan lines))),
      epic_importparts_amount =
        \<lparr>ea_top_speed = epic_per_stat, ea_accel = epic_per_stat,
         ea_handling = epic_per_stat, ea_nitro = epic_per_stat\<rparr>,
      epic_price = epic_price_total,
      stat = build_stat_list stat_entries (length star_line) (0 < epic_per_stat),
      upgrade_cumulative = star_full_totals,
      upgrade_per_star = per_star_of star_full_totals,
      upgrade_all = upg_all\<rparr>"

text \<open>
  \<open>parse_mei_page\<close> on the normalized lines.  The steps that can raise are in the order
  of the source, so the first one that raises decides the failure.
\<close>

definition parse_lines :: "ustr list \<Rightarrow> int \<Rightarrow> error + car" where
  "parse_lines lines cid =
     (case first_index is_class_line lines of
        None \<Rightarrow> Inl ValueError_class_name
      | Some idx_class \<Rightarrow>
        if length lines \<le> idx_class + 1 then Inl ValueError_class_name
        else (case find all_stars lines of
          None \<Rightarrow> Inl ValueError_star_line
        | Some star_line \<Rightarrow>
          (case epics_scan lines of
             Inl e \<Rightarrow> Inl e
           | Inr (epic_per_stat, epic_price_total) \<Rightarrow>
             (case scan_stats lines 0 [] of
                Inl e \<Rightarrow> Inl e
              | Inr stat_entries \<Rightarrow>
                if stat_entries = [] then Inl ValueError_stat_block
                else (case cost_ladder lines False [] of
                  Inl e \<Rightarrow> Inl e
                | Inr star_full_totals \<Rightarrow>
                  (case total_scan lines of
                     Inl e \<Rightarrow> Inl e
                   | Inr upgrade_all_full \<Rightarrow>
                     (case upgrade_all_of upgrade_all_full of
                        Inl e \<Rightarrow> Inl e
                      | Inr upg_all \<Rightarrow>
                        Inr (mk_car lines cid idx_class star_line epic_per_stat
                               epic_price_total stat_entries star_full_totals upg_all))))))))"

definition parse_mei_page :: "ustr \<Rightarrow> int \<Rightarrow> error + car" where
  "parse_mei_page text cid = parse_lines (page_lines text) cid"

section \<open>Sample pages\<close>

text \<open>
  Pages on which the parser is run below.  A page is given by its lines;
  \<open>join_lines\<close> is the text with every line ended by a newline.  \<open>page1\<close> has every
  section, with two blocks observed for one star.  \<open>page2\<close> has only the required
  sections and a cost ladder whose second total is below the first.  \<open>page3\<close> has a
  malformed number both as the price of the premium parts and after \<open>Total:\<close>;
  \<open>page3e\<close> is the same page without the \<open>Total:\<close> line.  On \<open>page4\<close> the class
  letter is the last line.
\<close>

definition join_lines :: "ustr list \<Rightarrow> ustr" where
  "join_lines ls = concat (map (\<lambda>l. l @ [NEWLINE]) ls)"

definition lines1 :: "ustr list" where
  "lines1 =
     [ustr ''S'', ustr ''Lamborghini Revuelto'', [STAR, STAR, STAR], FUEL # ustr '' 6 fuels'',
      ustr ''5/8/30'', ustr ''(43)'', ustr ''Epics:'', ustr ''2 x 240000 x 4='', ustr ''1,920,000'',
      ustr ''Stock [467]'', ustr ''180 km/h'', ustr ''4.5'', ustr ''50'', ustr ''60'',
      STAR # ustr '' [700]'', ustr ''200 km/h'', ustr ''5'', ustr ''51'', ustr ''61'',
      STAR # ustr '' [728]'', ustr ''210 km/h'', ustr ''5.5'', ustr ''52'', ustr ''62'',
      [STAR, STAR] @ ustr '' [1031]'', ustr ''250 km/h'', ustr ''6'', ustr ''53'', ustr ''63'',
      ustr ''Max w/o epics [1300]'', ustr ''300 km/h'', ustr ''7'', ustr ''54'', ustr ''64'',
      ustr ''Gold [1381]'', ustr ''320,5 km/h'', ustr ''8'', ustr ''55'', ustr ''65'',
      [STAR], ustr ''= 68,200'', [STAR, STAR], ustr ''= 150,000'', ustr ''Total: 300,000'']"

definition page1 :: ustr where
  "page1 = join_lines lines1"

definition entries1 :: "StatEntry list" where
  "entries1 =
   [\<lparr>kind = K_stock, label = ustr ''Stock'', rank = 467, top_speed = 180, accel = 4.5, handling = 50, nitro = 60\<rparr>,
    \<lparr>kind = K_star, label = [STAR], rank = 700, top_speed = 200, accel = 5, handling = 51, nitro = 61\<rparr>,
    \<lparr>kind = K_star, label = [STAR], rank = 728, top_speed = 210, accel = 5.5, handling = 52, nitro = 62\<rparr>,
    \<lparr>kind = K_star, label = [STAR, STAR], rank = 1031, top_speed = 250, accel = 6, handling = 53, nitro = 63\<rparr>,
    \<lparr>kind = K_max_wo_epics, label = ustr ''Max w/o epics'', rank = 1300, top_speed = 300, accel = 7, handling = 54, nitro = 64\<rparr>,
    \<lparr>kind = K_gold, label = ustr ''Gold'', rank = 1381, top_speed = 320.5, accel = 8, handling = 55, nitro = 65\<rparr>]"

definition car1 :: car where
  "car1 = mk_car lines1 7 0 [STAR, STAR, STAR] 2 (PyInt 1920000) entries1 [68200, 150000] (Some 300000)"

definition stock_entry1 :: StatEntry where
  "stock_entry1 = \<lparr>kind = K_stock, label = ustr ''Stock'', rank = 1, top_speed = 1, accel = 2, handling = 3, nitro = 4\<rparr>"

definition lines2 :: "ustr list" where
  "lines2 =
     [ustr ''S'', ustr ''Car'', [STAR, STAR], ustr ''Stock [1]'', ustr ''1'', ustr ''2'', ustr ''3'',
      ustr ''4'', [STAR], ustr ''= 100'', [STAR, STAR], ustr ''= 50'']"

definition page2 :: ustr where
  "page2 = join_lines lines2"

definition car2 :: car where
  "car2 = mk_car lines2 7 0 [STAR, STAR] 0 (PyInt 0) [stock_entry1] [100, 50] None"

definition lines3e :: "ustr list" where
  "lines3e =
     [ustr ''S'', ustr ''Car'', [STAR], ustr ''Epics:'', ustr ''2 x 240000 x 4='', ustr ''1,2345,6'',
      ustr ''Stock [1]'', ustr ''1'', ustr ''2'', ustr ''3'', ustr ''4'']"

definition page3e :: ustr where
  "page3e = join_lines lines3e"

definition car3e :: car where
  "car3e = mk_car lines3e 7 0 [STAR] 2 (PyInt 0) [stock_entry1] [] None"

definition lines3 :: "ustr list" where
  "lines3 = lines3e @ [ustr ''Total: 1,2345,6'']"

definition page3 :: ustr where
  "page3 = join_lines lines3"

definition lines4 :: "ustr list" where
  "lines4 = [[STAR], ustr ''Stock [1]'', ustr ''1'', ustr ''2'', ustr ''3'', ustr ''4'', ustr ''S'']"

definition page4 :: ustr where
  "page4 = join_lines lines4"

section \<open>Evaluation on concrete strings\<close>

text \<open>
  The definitions a concrete string is evaluated with.  The character tables are
  unfolded last, by plain arithmetic on code points.
\<close>

lemmas char_defs = ustr_def is_digit_def digit_val_def nd_starts_def is_space_def
  is_linebreak_def int_space_def is_numch_def is_numcomma_def

lemmas number_defs = strip_with_def py_strip_def remove_char_def dec_value_def py_int_def
  py_float_def all_digits_def thousand_dots_def digits_sep_digits_def comma_rule_def
  parse_number_def Let_def starts_with_def double_overflows_def float_of_num_def int_of_num_def

section \<open>parse_number: the documented examples\<close>

text \<open>
  Claim C2.  \<open>parse_number\<close> maps \<open>"42.486.000"\<close> to the integer 42486000,
  \<open>"68,200"\<close> to the integer 68200, \<open>"42,2"\<close> to the float 42.2, \<open>"1,234,567"\<close> to the
  integer 1234567, \<open>"123.45"\<close> to the float 123.45, \<open>"307"\<close> to the integer 307, and
  raises its \<open>ValueError\<close> on \<open>"12a"\<close>.  The rules are tried in the fixed order: the
  string \<open>"1.234"\<close>, which has both the shape of thousand-dot groups and of a plain
  decimal, is the integer 1234.
\<close>

theorem parse_number_examples:
  "parse_number (ustr ''42.486.000'') = Inr (PyInt 42486000)
   \<and> parse_number (ustr ''68,200'') = Inr (PyInt 68200)
   \<and> parse_number (ustr ''42,2'') = Inr (PyFloat 42.2)
   \<and> parse_number (ustr ''1,234,567'') = Inr (PyInt 1234567)
   \<and> parse_number (ustr ''123.45'') = Inr (PyFloat 123.45)
   \<and> parse_number (ustr ''307'') = Inr (PyInt 307)
   \<and> parse_number (ustr ''12a'') = Inl (ValueError_parse_number (ustr ''12a''))
   \<and> parse_number (ustr ''1.234'') = Inr (PyInt 1234)"
proof -
  have a: "parse_number (ustr ''42.486.000'') = Inr (PyInt 42486000)"
    by (simp add: number_defs char_defs)
  have b: "parse_number (ustr ''68,200'') = Inr (PyInt 68200)"
    by (simp add: number_defs char_defs)
  have c: "parse_number (ustr ''42,2'') = Inr (PyFloat 42.2)"
    by (simp add: number_defs char_defs)
  have d: "parse_number (ustr ''1,234,567'') = Inr (PyInt 1234567)"
    by (simp add: number_defs char_defs)
  have e: "parse_number (ustr ''123.45'') = Inr (PyFloat 123.45)"
    by (simp add: number_defs char_defs)
  have f: "parse_number (ustr ''307'') = Inr (PyInt 307)"
    by (simp add: number_defs char_defs)
  have g: "parse_number (ustr ''12a'') = Inl (ValueError_parse_number (ustr ''12a''))"
    by (simp add: number_defs char_defs)
  have h: "parse_number (ustr ''1.234'') = Inr (PyInt 1234)"
    by (simp add: number_defs char_defs)
  from a b c d e f g h show ?thesis by (intro conjI)
qed
section \<open>The sample pages, scan by scan\<close>

lemmas pattern_defs = is_class_line_def all_stars_def fuel_at_def slash_slash_at_def full_slash_seq_def
  slash_seq_at_def paren_at_def header_label_def match_header_def is_header_def speed_at_def run_at_def
  prefixed_run_at_def extract_bp_from_two_lines_def accumulate_def is_bp_candidate_def epics_scan_def
  kind_of_label_def metric_token_def parse_stat_block_def total_scan_def fuel_of_def

lemmas page_defs = join_lines_def page_lines_def splitlines_def normalize_line_def

lemma page1_lines: "page_lines page1 = lines1"
  by (simp add: page1_def lines1_def page_defs number_defs char_defs)

lemma lines1_class: "first_index is_class_line lines1 = Some 0"
  by (simp add: lines1_def pattern_defs number_defs char_defs)

lemma lines1_length: "length lines1 = 44"
  by (simp add: lines1_def)

lemma lines1_star: "find all_stars lines1 = Some [STAR, STAR, STAR]"
  by (simp add: lines1_def pattern_defs number_defs char_defs)

lemma lines1_bp: "bp_scan lines1 = Some ([5, 8, 30], Some 43, False)"
  by (simp add: lines1_def pattern_defs number_defs char_defs)

lemma lines1_epics: "epics_scan lines1 = Inr (2, PyInt 1920000)"
  by (simp add: lines1_def pattern_defs number_defs char_defs)

lemma lines1_stats: "scan_stats lines1 0 [] = Inr entries1"
  by (simp add: lines1_def entries1_def pattern_defs number_defs char_defs)

lemma lines1_ladder: "cost_ladder lines1 False [] = Inr [68200, 150000]"
  by (simp add: lines1_def pattern_defs number_defs char_defs)

lemma lines1_total: "total_scan lines1 = Inr (Some (PyInt 300000))"
  by (simp add: lines1_def pattern_defs number_defs char_defs)

lemma lines1_fuel: "fuel_of lines1 = Some 6"
  by (simp add: lines1_def pattern_defs number_defs char_defs)

lemma page2_lines: "page_lines page2 = lines2"
  by (simp add: page2_def lines2_def page_defs number_defs char_defs)

lemma lines2_class: "first_index is_class_line lines2 = Some 0"
  by (simp add: lines2_def pattern_defs number_defs char_defs)

lemma lines2_length: "length lines2 = 12"
  by (simp add: lines2_def)

lemma lines2_star: "find all_stars lines2 = Some [STAR, STAR]"
  by (simp add: lines2_def pattern_defs number_defs char_defs)

lemma lines2_bp: "bp_scan lines2 = None"
  by (simp add: lines2_def pattern_defs number_defs char_defs)

lemma lines2_epics: "epics_scan lines2 = Inr (0, PyInt 0)"
  by (simp add: lines2_def pattern_defs number_defs char_defs)

lemma lines2_stats: "scan_stats lines2 0 [] = Inr [stock_entry1]"
  by (simp add: lines2_def stock_entry1_def pattern_defs number_defs char_defs)

lemma lines2_ladder: "cost_ladder lines2 False [] = Inr [100, 50]"
  by (simp add: lines2_def pattern_defs number_defs char_defs)

lemma lines2_total: "total_scan lines2 = Inr None"
  by (simp add: lines2_def pattern_defs number_defs char_defs)

lemma lines2_fuel: "fuel_of lines2 = None"
  by (simp add: lines2_def pattern_defs number_defs char_defs)

lemma page3e_lines: "page_lines page3e = lines3e"
  by (simp add: page3e_def lines3e_def page_defs number_defs char_defs)

lemma page3_lines: "page_lines page3 = lines3"
  by (simp add: page3_def lines3_def lines3e_def page_defs number_defs char_defs)

lemma lines3e_class: "first_index is_class_line lines3e = Some 0"
  by (simp add: lines3e_def pattern_defs number_defs char_defs)

lemma lines3e_length: "length lines3e = 11"
  by (simp add: lines3e_def)

lemma lines3e_star: "find all_stars lines3e = Some [STAR]"
  by (simp add: lines3e_def pattern_defs number_defs char_defs)

lemma lines3e_epics: "epics_scan lines3e = Inr (2, PyInt 0)"
  by (simp add: lines3e_def pattern_defs number_defs char_defs)

lemma lines3e_stats: "scan_stats lines3e 0 [] = Inr [stock_entry1]"
  by (simp add: lines3e_def stock_entry1_def pattern_defs number_defs char_defs)

lemma lines3e_ladder: "cost_ladder lines3e False [] = Inr []"
  by (simp add: lines3e_def pattern_defs number_defs char_defs)

lemma lines3e_total: "total_scan lines3e = Inr None"
  by (simp add: lines3e_def pattern_defs number_defs char_defs)

lemma lines3_class: "first_index is_class_line lines3 = Some 0"
  by (simp add: lines3_def lines3e_def pattern_defs number_defs char_defs)

lemma lines3_length: "length lines3 = 12"
  by (simp add: lines3_def lines3e_def)

lemma lines3_star: "find all_stars lines3 = Some [STAR]"
  by (simp add: lines3_def lines3e_def pattern_defs number_defs char_defs)

lemma lines3_epics: "epics_scan lines3 = Inr (2, PyInt 0)"
  by (simp add: lines3_def lines3e_def pattern_defs number_defs char_defs)

lemma lines3_stats: "scan_stats lines3 0 [] = Inr [stock_entry1]"
  by (simp add: lines3_def lines3e_def stock_entry1_def pattern_defs number_defs char_defs)

lemma lines3_ladder: "cost_ladder lines3 False [] = Inr []"
  by (simp add: lines3_def lines3e_def pattern_defs number_defs char_defs)

lemma lines3_total: "total_scan lines3 = Inl (ValueError_parse_number (ustr ''1,2345,6''))"
  by (simp add: lines3_def lines3e_def pattern_defs number_defs char_defs)

lemma page4_lines: "page_lines page4 = lines4"
  by (simp add: page4_def lines4_def page_defs number_defs char_defs)

lemma lines4_class: "first_index is_class_line lines4 = Some 6"
  by (simp add: lines4_def pattern_defs number_defs char_defs)

lemma lines4_length: "length lines4 = 7"
  by (simp add: lines4_def)

lemma lines4_star: "find all_stars lines4 = Some [STAR]"
  by (simp add: lines4_def pattern_defs number_defs char_defs)

lemma lines4_stats: "scan_stats lines4 0 [] = Inr [stock_entry1]"
  by (simp add: lines4_def stock_entry1_def pattern_defs number_defs char_defs)

section \<open>The sample pages, parsed\<close>

lemma page1_parsed: "parse_mei_page page1 7 = Inr car1"
  by (simp add: parse_mei_page_def page1_lines parse_lines_def lines1_class lines1_length
      lines1_star lines1_epics lines1_stats lines1_ladder lines1_total upgrade_all_of_def
      int_of_num_def car1_def entries1_def del: scan_stats.simps)

lemma page2_parsed: "parse_mei_page page2 7 = Inr car2"
  by (simp add: parse_mei_page_def page2_lines parse_lines_def lines2_class lines2_length
      lines2_star lines2_epics lines2_stats lines2_ladder lines2_total upgrade_all_of_def
      car2_def stock_entry1_def del: scan_stats.simps)

lemma page3e_parsed: "parse_mei_page page3e 7 = Inr car3e"
  by (simp add: parse_mei_page_def page3e_lines parse_lines_def lines3e_class lines3e_length
      lines3e_star lines3e_epics lines3e_stats lines3e_ladder lines3e_total upgrade_all_of_def
      car3e_def stock_entry1_def del: scan_stats.simps)

lemma page3_parsed: "parse_mei_page page3 7 = Inl (ValueError_parse_number (ustr ''1,2345,6''))"
  by (simp add: parse_mei_page_def page3_lines parse_lines_def lines3_class lines3_length
      lines3_star lines3_epics lines3_stats lines3_ladder lines3_total stock_entry1_def
      del: scan_stats.simps)

lemma page4_parsed: "parse_mei_page page4 7 = Inl ValueError_class_name"
  by (simp add: parse_mei_page_def page4_lines parse_lines_def lines4_class lines4_length)

lemma car1_stat: "stat car1 =
  [\<lparr>star = 1, stat_type = T_stock, row_rank = 467, row_top_speed = 180, row_accel = 4.5, row_handling = 50, row_nitro = 60\<rparr>,
   \<lparr>star = 1, stat_type = T_full, row_rank = 728, row_top_speed = 210, row_accel = 5.5, row_handling = 52, row_nitro = 62\<rparr>,
   \<lparr>star = 2, stat_type = T_full, row_rank = 1031, row_top_speed = 250, row_accel = 6, row_handling = 53, row_nitro = 63\<rparr>,
   \<lparr>star = 3, stat_type = T_max_wo_epics, row_rank = 1300, row_top_speed = 300, row_accel = 7, row_handling = 54, row_nitro = 64\<rparr>,
   \<lparr>star = 3, stat_type = T_gold, row_rank = 1381, row_top_speed = 320.5, row_accel = 8, row_handling = 55, row_nitro = 65\<rparr>]"
  by (simp add: car1_def mk_car_def entries1_def build_stat_list_def mk_row_def ustr_def upt_rec
      numeral_2_eq_2 numeral_3_eq_3)

lemma car1_fields:
  "max_star car1 = 3" "fuel car1 = Some 6" "bp_requirements car1 = [5, 8, 30]"
  "bp_cumulative car1 = [5, 13, 43]" "bp_all car1 = Some 43"
  "unlock_method car1 = Some Unlock_bp" "epic_price car1 = PyInt 1920000"
  "upgrade_cumulative car1 = [68200, 150000]" "upgrade_per_star car1 = [68200, 81800]"
  "upgrade_all car1 = Some 300000"
  by (simp_all add: car1_def mk_car_def lines1_bp lines1_fuel unlock_fields_def accumulate_def
      per_star_of_def upt_rec numeral_2_eq_2)

lemma car2_fields:
  "max_star car2 = 2" "fuel car2 = None" "bp_requirements car2 = []"
  "bp_cumulative car2 = []" "bp_all car2 = None"
  "unlock_method car2 = None" "epic_price car2 = PyInt 0"
  "epic_importparts_amount car2 = \<lparr>ea_top_speed = 0, ea_accel = 0, ea_handling = 0, ea_nitro = 0\<rparr>"
  "upgrade_cumulative car2 = [100, 50]" "upgrade_per_star car2 = [100, - 50]"
  "upgrade_all car2 = None"
  by (simp_all add: car2_def mk_car_def lines2_bp lines2_fuel unlock_fields_def accumulate_def
      per_star_of_def upt_rec numeral_2_eq_2)

section \<open>The steps of a successful run\<close>

text \<open>
  A run that returns a record went through every step without a failure, and the record
  is \<open>mk_car\<close> of the values the steps produced.
\<close>

lemma parse_lines_Inr:
  assumes "parse_lines lines cid = Inr c"
  obtains idx star_line eps price entries totals upg where
    "first_index is_class_line lines = Some idx" "idx + 1 < length lines"
    "find all_stars lines = Some star_line" "epics_scan lines = Inr (eps, price)"
    "scan_stats lines 0 [] = Inr entries" "entries \<noteq> []"
    "cost_ladder lines False [] = Inr totals"
    "c = mk_car lines cid idx star_line eps price entries totals upg"
proof -
  note p = assms[unfolded parse_lines_def]
  obtain idx where 1: "first_index is_class_line lines = Some idx"
    using p by (cases "first_index is_class_line lines") simp_all
  have 2: "idx + 1 < length lines"
    using p 1 by (cases "length lines \<le> idx + 1") simp_all
  obtain star_line where 3: "find all_stars lines = Some star_line"
    using p 1 2 by (cases "find all_stars lines") simp_all
  obtain x where 4: "epics_scan lines = Inr x"
    using p 1 2 3 by (cases "epics_scan lines") simp_all
  obtain eps price where 5: "x = (eps, price)" by (cases x)
  obtain entries where 6: "scan_stats lines 0 [] = Inr entries"
    using p 1 2 3 4 5 by (cases "scan_stats lines 0 []") simp_all
  have 7: "entries \<noteq> []"
    using p 1 2 3 4 5 6 by (cases "entries = []") simp_all
  obtain totals where 8: "cost_ladder lines False [] = Inr totals"
    using p 1 2 3 4 5 6 7 by (cases "cost_ladder lines False []") simp_all
  obtain tot where 9: "total_scan lines = Inr tot"
    using p 1 2 3 4 5 6 7 8 by (cases "total_scan lines") simp_all
  obtain upg where 10: "upgrade_all_of tot = Inr upg"
    using p 1 2 3 4 5 6 7 8 9 by (cases "upgrade_all_of tot") simp_all
  have "c = mk_car lines cid idx star_line eps price entries totals upg"
    using p 1 2 3 4 5 6 7 8 9 10 by simp
  with 1 2 3 4 5 6 7 8 that show ?thesis by blast
qed

lemma parse_mei_page_Inr:
  assumes "parse_mei_page text cid = Inr c"
  obtains idx star_line eps price entries totals upg where
    "first_index is_class_line (page_lines text) = Some idx" "idx + 1 < length (page_lines text)"
    "find all_stars (page_lines text) = Some star_line"
    "epics_scan (page_lines text) = Inr (eps, price)"
    "scan_stats (page_lines text) 0 [] = Inr entries" "entries \<noteq> []"
    "cost_ladder (page_lines text) False [] = Inr totals"
    "c = mk_car (page_lines text) cid idx star_line eps price entries totals upg"
  using assms unfolding parse_mei_page_def by (rule parse_lines_Inr)

section \<open>Running sums and differences\<close>

lemma length_per_star_of: "length (per_star_of xs) = length xs"
  by (simp add: per_star_of_def)

lemma per_star_of_nth:
  "i < length xs \<Longrightarrow> per_star_of xs ! i = (if i = 0 then xs ! 0 else xs ! i - xs ! (i - 1))"
  by (auto simp: per_star_of_def)

lemma per_star_of_snoc: "xs \<noteq> [] \<Longrightarrow> per_star_of (xs @ [x]) = per_star_of xs @ [x - last xs]"
  by (auto simp: per_star_of_def nth_append last_conv_nth intro!: nth_equalityI)

lemma sum_per_star_of: "xs \<noteq> [] \<Longrightarrow> sum_list (per_star_of xs) = last xs"
proof (induction xs rule: rev_induct)
  case Nil
  then show ?case by simp
next
  case (snoc x xs)
  show ?case
  proof (cases "xs = []")
    case True
    then show ?thesis by (simp add: per_star_of_def)
  next
    case False
    with snoc.IH show ?thesis by (simp add: per_star_of_snoc)
  qed
qed

lemma length_accumulate_from: "length (accumulate_from a xs) = length xs"
  by (induction xs arbitrary: a) simp_all

lemma accumulate_from_nth:
  "i < length xs \<Longrightarrow> accumulate_from a xs ! i = a + sum_list (take (Suc i) xs)"
proof (induction xs arbitrary: a i)
  case Nil
  then show ?case by simp
next
  case (Cons x xs)
  show ?case
  proof (cases i)
    case 0
    then show ?thesis by simp
  next
    case (Suc j)
    with Cons.prems have "j < length xs" by simp
    from Cons.IH[OF this, of "a + x"] Suc show ?thesis by simp
  qed
qed

lemma accumulate_from_sorted:
  "\<forall>x\<in>set xs. 0 \<le> x \<Longrightarrow> sorted (accumulate_from a xs) \<and> (\<forall>y\<in>set (accumulate_from a xs). a \<le> y)"
proof (induction xs arbitrary: a)
  case Nil
  then show ?case by simp
next
  case (Cons x xs)
  then have xs: "\<forall>x\<in>set xs. 0 \<le> x" and x: "0 \<le> x" by simp_all
  from Cons.IH[OF xs, of "a + x"] x show ?case by fastforce
qed

section \<open>Upgrade cost per star\<close>

text \<open>
  Claim C6.  For every successfully parsed record with a non-empty \<open>upgrade_cumulative\<close>,
  \<open>upgrade_per_star\<close> has the same length, its first element is
  \<open>upgrade_cumulative[0]\<close>, every later element is the difference of two consecutive
  entries of \<open>upgrade_cumulative\<close>, and the sum of \<open>upgrade_per_star\<close> is the last
  element of \<open>upgrade_cumulative\<close>.
\<close>

theorem upgrade_per_star_deltas:
  assumes "parse_mei_page text cid = Inr c" and "upgrade_cumulative c \<noteq> []"
  shows "length (upgrade_per_star c) = length (upgrade_cumulative c)
     \<and> upgrade_per_star c ! 0 = upgrade_cumulative c ! 0
     \<and> (\<forall>i. 0 < i \<and> i < length (upgrade_cumulative c) \<longrightarrow>
           upgrade_per_star c ! i = upgrade_cumulative c ! i - upgrade_cumulative c ! (i - 1))
     \<and> sum_list (upgrade_per_star c) = last (upgrade_cumulative c)"
proof -
  from assms(1) obtain lines idx star_line eps price entries totals upg where
    c: "c = mk_car lines cid idx star_line eps price entries totals upg"
    by (rule parse_mei_page_Inr)
  have cum: "upgrade_cumulative c = totals" and per: "upgrade_per_star c = per_star_of totals"
    by (simp_all add: c mk_car_def)
  from assms(2) cum have ne: "totals \<noteq> []" by simp
  then have pos: "0 < length totals" by simp
  show ?thesis
    unfolding cum per
    using ne pos by (simp add: length_per_star_of per_star_of_nth sum_per_star_of)
qed

text \<open>On \<open>page1\<close>: the totals 68200 and 150000 give 68200 and 81800.\<close>

theorem upgrade_per_star_deltas_witness:
  "parse_mei_page page1 7 = Inr car1 \<and> upgrade_cumulative car1 = [68200, 150000]
   \<and> upgrade_per_star car1 ! 0 = 68200 \<and> upgrade_per_star car1 ! 1 = 150000 - 68200
   \<and> sum_list (upgrade_per_star car1) = 150000"
  using upgrade_per_star_deltas [of page1 7 car1] page1_parsed
  by (simp add: car1_fields)

section \<open>Cumulative blueprint requirements\<close>

text \<open>The requirements are values of digit strings, so none is negative.\<close>

lemma extract_bp_nonneg:
  "extract_bp_from_two_lines l n = Some (r, t) \<Longrightarrow> \<forall>x\<in>set r. 0 \<le> x"
  by (auto simp: extract_bp_from_two_lines_def Let_def split: option.splits)

lemma bp_scan_nonneg: "bp_scan lines = Some (r, t, k) \<Longrightarrow> \<forall>x\<in>set r. 0 \<le> x"
proof (induction lines)
  case Nil
  then show ?case by simp
next
  case (Cons l ls)
  show ?case
  proof (cases "is_bp_candidate l")
    case False
    with Cons show ?thesis by simp
  next
    case True
    show ?thesis
    proof (cases "extract_bp_from_two_lines l (case ls of [] \<Rightarrow> None | n # x \<Rightarrow> Some n)")
      case None
      with True Cons show ?thesis by simp
    next
      case (Some p)
      obtain r' t' where p: "p = (r', t')" by (cases p)
      with Some True Cons.prems have "r = r'" by simp
      with Some p extract_bp_nonneg show ?thesis by blast
    qed
  qed
qed

lemma unlock_fields_nonneg: "\<forall>x\<in>set (fst (unlock_fields (bp_scan lines))). 0 \<le> x"
proof (cases "bp_scan lines")
  case None
  then show ?thesis by (simp add: unlock_fields_def)
next
  case (Some p)
  obtain r t k where p: "p = (r, t, k)" by (cases p)
  with Some bp_scan_nonneg have "\<forall>x\<in>set r. 0 \<le> x" by blast
  with Some p show ?thesis by (simp add: unlock_fields_def)
qed

text \<open>
  Claim C9.  For every successfully parsed record with a non-empty \<open>bp_requirements\<close>,
  \<open>bp_cumulative\<close> has the same length, \<open>bp_cumulative[i]\<close> is the sum of
  \<open>bp_requirements[0..i]\<close> for every index \<open>i\<close>, and \<open>bp_cumulative\<close> is
  non-decreasing.
\<close>

theorem bp_cumulative_running_sum:
  assumes "parse_mei_page text cid = Inr c" and "bp_requirements c \<noteq> []"
  shows "length (bp_cumulative c) = length (bp_requirements c)
     \<and> (\<forall>i < length (bp_requirements c).
           bp_cumulative c ! i = sum_list (take (Suc i) (bp_requirements c)))
     \<and> sorted (bp_cumulative c)"
proof -
  from assms(1) obtain lines idx star_line eps price entries totals upg where
    c: "c = mk_car lines cid idx star_line eps price entries totals upg"
    by (rule parse_mei_page_Inr)
  define reqs where "reqs = fst (unlock_fields (bp_scan lines))"
  have r: "bp_requirements c = reqs" and a: "bp_cumulative c = accumulate_from 0 reqs"
    by (simp_all add: c mk_car_def reqs_def accumulate_def)
  have "\<forall>x\<in>set reqs. 0 \<le> x" unfolding reqs_def by (rule unlock_fields_nonneg)
  then have "sorted (accumulate_from 0 reqs)" using accumulate_from_sorted by blast
  then show ?thesis
    unfolding r a by (simp add: length_accumulate_from accumulate_from_nth)
qed

text \<open>On \<open>page1\<close>: the requirements 5, 8, 30 give 5, 13, 43.\<close>

theorem bp_cumulative_running_sum_witness:
  "parse_mei_page page1 7 = Inr car1 \<and> bp_requirements car1 = [5, 8, 30]
   \<and> bp_cumulative car1 ! 0 = 5 \<and> bp_cumulative car1 ! 1 = 5 + 8
   \<and> bp_cumulative car1 ! 2 = 5 + 8 + 30 \<and> sorted (bp_cumulative car1)"
proof -
  have "bp_requirements car1 \<noteq> []" by (simp add: car1_fields)
  from bp_cumulative_running_sum [OF page1_parsed this] show ?thesis
    by (simp add: car1_fields page1_parsed)
qed

end
